theory Spec2Isabelle
  imports Complex_Main
begin

section \<open>The wetlands merge engine (\<^verbatim>\<open>wetlands_merge_grid.py\<close>)\<close>

text \<open>
  The transformer \<^verbatim>\<open>merge_grid\<close> reads a GeoParquet file, splits the features into
  spatial chunks, merges the touching polygons of one gridcode inside every chunk
  (\<^verbatim>\<open>process_chunk\<close>), merges the chunk results once more across chunks, and writes the
  result to a new GeoParquet file.

  Geometry itself is computed by libraries (shapely, libpysal, geopandas). The library
  calls the code makes are the fields of \<open>geo_ops\<close>; every function of the model takes
  them as its first argument. Coordinates are real numbers (the rounding of Python's
  floats is not modelled), the geometry column holds no null.
\<close>

subsection \<open>Library operations\<close>

text \<open>
  The \<^verbatim>\<open>crs\<close> attribute of a frame is \<open>None\<close> or a CRS object, whose \<^verbatim>\<open>to_epsg()\<close> is an
  EPSG code or \<^verbatim>\<open>None\<close>.
\<close>

datatype crs = EPSG int | Other_CRS

fun to_epsg :: "crs \<Rightarrow> int option" where
  "to_epsg (EPSG n) = Some n"
| "to_epsg Other_CRS = None"

type_synonym box = "real \<times> real \<times> real \<times> real"

record 'g geo_ops =
  bounds :: "'g \<Rightarrow> box option"
    \<comment> \<open>\<^verbatim>\<open>geometry.bounds\<close> as (minx, miny, maxx, maxy); \<open>None\<close> is the NaN row of an empty geometry\<close>
  intersects :: "'g \<Rightarrow> box \<Rightarrow> bool"
    \<comment> \<open>\<^verbatim>\<open>geometry.intersects(box(minx, miny, maxx, maxy))\<close>\<close>
  is_valid :: "'g \<Rightarrow> bool"
  make_valid :: "'g \<Rightarrow> 'g"
  unary_union :: "'g list \<Rightarrow> 'g"
    \<comment> \<open>the geometry aggregation of \<^verbatim>\<open>GeoDataFrame.dissolve\<close>\<close>
  queen :: "'g \<Rightarrow> 'g \<Rightarrow> bool"
    \<comment> \<open>the Queen contiguity of \<^verbatim>\<open>libpysal.weights.Queen\<close> between two geometries\<close>
  queen_raises :: "'g list \<Rightarrow> bool"
    \<comment> \<open>\<^verbatim>\<open>Queen.from_dataframe\<close> raises on this geometry column\<close>
  read_crs :: "string \<Rightarrow> crs option"
    \<comment> \<open>the CRS geopandas builds from the CRS entry of a file's metadata\<close>

subsection \<open>Data frames and files\<close>

text \<open>
  One row of a (Geo)DataFrame. The columns \<^verbatim>\<open>merged_count\<close>, \<^verbatim>\<open>component_id\<close> and
  \<^verbatim>\<open>temp_id\<close> exist only in some frames: \<open>None\<close> where the frame has no such column.
  \<open>absorbed\<close> is not a column of the program: it records, for the statements below, the
  positions in the input file of the features a row was dissolved from.
\<close>

record 'g row =
  gridcode :: int
  geometry :: 'g
  merged_count :: "nat option"
  component_id :: "nat option"
  temp_id :: "nat option"
  absorbed :: "nat list"

record 'g gdf =
  crs :: "crs option"
  columns :: "string list"
  rows :: "'g row list"

datatype 'g encoded = WKB 'g

record geo_metadata =
  primary_column :: string
  geometry_columns :: "string list"
  encoding :: string
  geometry_type :: string
  crs_name :: string
  version :: string

record 'g parquet =
  pq_columns :: "string list"
  pq_rows :: "'g encoded row list"
  pq_geo :: geo_metadata

datatype 'g stored = Blank | Parquet "'g parquet"

type_synonym 'g files = "string \<rightharpoonup> 'g stored"

datatype error =
  NoInputPath
  | ReadError
  | UnexpectedCRS "int option"
  | ContiguityError

definition with_geometry :: "'g row \<Rightarrow> 'h \<Rightarrow> 'h row" where
  "with_geometry r g =
     \<lparr>gridcode = gridcode r, geometry = g, merged_count = merged_count r,
      component_id = component_id r, temp_id = temp_id r, absorbed = absorbed r\<rparr>"

definition decode :: "'g encoded \<Rightarrow> 'g" where
  "decode e = (case e of WKB g \<Rightarrow> g)"

text \<open>
  \<^verbatim>\<open>gpd.read_parquet(input_path)\<close>: a missing or empty file raises; the rows come back
  with their geometries decoded, numbered by position.
\<close>

definition read_parquet :: "'g geo_ops \<Rightarrow> 'g files \<Rightarrow> string \<Rightarrow> error + 'g gdf" where
  "read_parquet ops fs path =
     (case fs path of
        None \<Rightarrow> Inl ReadError
      | Some Blank \<Rightarrow> Inl ReadError
      | Some (Parquet f) \<Rightarrow>
          Inr \<lparr>crs = read_crs ops (crs_name (pq_geo f)),
               columns = pq_columns f,
               rows = map (\<lambda>(i, r). (with_geometry r (decode (geometry r)))\<lparr>absorbed := [i]\<rparr>)
                        (enumerate 0 (pq_rows f))\<rparr>)"

subsection \<open>Connected components of the contiguity graph\<close>

text \<open>
  \<^verbatim>\<open>W = Queen.from_dataframe(df)\<close> followed by \<^verbatim>\<open>W.component_labels\<close>: node \<open>i\<close> is the
  \<open>i\<close>-th row, \<open>j\<close> is a neighbour of \<open>i\<close> when the two geometries are contiguous, and the
  labels are those of the (weakly) connected components, numbered from 0 in the order
  in which the components first occur.
\<close>

definition neighbors :: "'g geo_ops \<Rightarrow> 'g list \<Rightarrow> (nat \<times> nat) list" where
  "neighbors ops gs =
     [(i, j). i \<leftarrow> [0..<length gs], j \<leftarrow> [0..<length gs], i \<noteq> j \<and> queen ops (gs ! i) (gs ! j)]"

definition join :: "nat \<times> nat \<Rightarrow> nat list \<Rightarrow> nat list" where
  "join e ls = map (\<lambda>l. if l = ls ! snd e then ls ! fst e else l) ls"

definition raw_labels :: "nat \<Rightarrow> (nat \<times> nat) list \<Rightarrow> nat list" where
  "raw_labels n es = fold join es [0..<n]"

fun first_seen :: "'a list \<Rightarrow> 'a list \<Rightarrow> 'a list" where
  "first_seen seen [] = seen"
| "first_seen seen (l # ls) = first_seen (if l \<in> set seen then seen else seen @ [l]) ls"

fun position :: "nat \<Rightarrow> nat list \<Rightarrow> nat" where
  "position l [] = 0"
| "position l (x # xs) = (if l = x then 0 else Suc (position l xs))"

definition component_labels :: "'g geo_ops \<Rightarrow> 'g list \<Rightarrow> nat list" where
  "component_labels ops gs =
     (let raw = raw_labels (length gs) (neighbors ops gs);
          order = first_seen [] raw
      in map (\<lambda>l. position l order) raw)"

subsection \<open>Dissolve\<close>

text \<open>
  \<^verbatim>\<open>df.dissolve(by='component_id', aggfunc={...}).reset_index()\<close>: one output row for
  every value of \<^verbatim>\<open>component_id\<close>, in ascending order; its geometry is the union of the
  group's geometries, \<^verbatim>\<open>gridcode\<close> is the group's first, and \<open>agg\<close> computes the count
  column (\<^verbatim>\<open>'temp_id': 'count'\<close> or \<^verbatim>\<open>'merged_count': 'sum'\<close>). Columns that are not
  aggregated are dropped.
\<close>

definition rows_of :: "nat list \<Rightarrow> 'a list \<Rightarrow> nat \<Rightarrow> 'a list" where
  "rows_of labels rs c = map snd (filter (\<lambda>(l, r). l = c) (zip labels rs))"

definition dissolve_group :: "'g geo_ops \<Rightarrow> ('g row list \<Rightarrow> nat) \<Rightarrow> nat \<Rightarrow> 'g row list \<Rightarrow> 'g row" where
  "dissolve_group ops agg c grp =
     \<lparr>gridcode = gridcode (hd grp),
      geometry = unary_union ops (map geometry grp),
      merged_count = Some (agg grp),
      component_id = Some c,
      temp_id = None,
      absorbed = concat (map absorbed grp)\<rparr>"

definition dissolve ::
  "'g geo_ops \<Rightarrow> ('g row list \<Rightarrow> nat) \<Rightarrow> nat list \<Rightarrow> 'g row list \<Rightarrow> 'g row list" where
  "dissolve ops agg labels rs =
     map (\<lambda>c. dissolve_group ops agg c (rows_of labels rs c)) (sort (remdups labels))"

definition count_agg :: "'g row list \<Rightarrow> nat" where
  "count_agg grp = length grp"

definition sum_agg :: "'g row list \<Rightarrow> nat" where
  "sum_agg grp = sum_list (map (\<lambda>r. case merged_count r of None \<Rightarrow> 0 | Some c \<Rightarrow> c) grp)"

definition set_temp_id :: "'g row list \<Rightarrow> 'g row list" where
  "set_temp_id rs = map (\<lambda>(i, r). r\<lparr>temp_id := Some i\<rparr>) (enumerate 0 rs)"

subsection \<open>\<^verbatim>\<open>process_chunk\<close>\<close>

definition repair :: "'g geo_ops \<Rightarrow> 'g \<Rightarrow> 'g" where
  "repair ops g = (if \<not> is_valid ops g then make_valid ops g else g)"

text \<open>
  The CRS test at the head of \<^verbatim>\<open>merge_grid\<close>, \<^verbatim>\<open>process_chunk\<close> and
  \<^verbatim>\<open>write_duckdb_compatible_geoparquet\<close>: a frame without CRS passes (and is then given
  EPSG:4326), a CRS whose \<^verbatim>\<open>to_epsg()\<close> is not 4326 raises \<^verbatim>\<open>ValueError\<close>.
\<close>

definition check_crs :: "crs option \<Rightarrow> error + unit" where
  "check_crs c =
     (case c of
        None \<Rightarrow> Inr ()
      | Some t \<Rightarrow> if to_epsg t \<noteq> Some 4326 then Inl (UnexpectedCRS (to_epsg t)) else Inr ())"

text \<open>
  The rows of the chunk with the wanted gridcode, their invalid geometries repaired,
  numbered by \<^verbatim>\<open>temp_id\<close>.
\<close>

definition prepare_chunk :: "'g geo_ops \<Rightarrow> 'g gdf \<Rightarrow> int \<Rightarrow> 'g row list" where
  "prepare_chunk ops chunk_gdf code =
     set_temp_id (map (\<lambda>r. r\<lparr>geometry := repair ops (geometry r)\<rparr>)
                    (filter (\<lambda>r. gridcode r = code) (rows chunk_gdf)))"

text \<open>
  The contiguity graph of the rows, its component labels as the column
  \<^verbatim>\<open>component_id\<close>, and the dissolve by that column.
\<close>

definition merge_components ::
  "'g geo_ops \<Rightarrow> ('g row list \<Rightarrow> nat) \<Rightarrow> 'g row list \<Rightarrow> 'g row list" where
  "merge_components ops agg rs = dissolve ops agg (component_labels ops (map geometry rs)) rs"

definition process_chunk :: "'g geo_ops \<Rightarrow> 'g gdf \<Rightarrow> int \<Rightarrow> error + 'g gdf option" where
  "process_chunk ops chunk_gdf code =
     (if length (filter (\<lambda>r. gridcode r = code) (rows chunk_gdf)) = 0 then Inr None
      else
        (case check_crs (crs chunk_gdf) of
           Inl e \<Rightarrow> Inl e
         | Inr _ \<Rightarrow>
             if queen_raises ops (map geometry (prepare_chunk ops chunk_gdf code))
             then Inl ContiguityError
             else Inr (Some
               \<lparr>crs = Some (EPSG 4326),
                columns = [''component_id'', ''geometry'', ''gridcode'', ''merged_count''],
                rows = map (\<lambda>r. r\<lparr>geometry := make_valid ops (geometry r)\<rparr>)
                         (merge_components ops count_agg (prepare_chunk ops chunk_gdf code))\<rparr>)))"

subsection \<open>\<^verbatim>\<open>create_spatial_chunks\<close>\<close>

text \<open>
  \<^verbatim>\<open>gdf.total_bounds\<close> is the NaN-skipping minimum and maximum of the rows' bounds; it is
  all NaN (\<open>None\<close>) when no row has bounds, in particular for a frame without rows.
\<close>

definition total_bounds :: "'g geo_ops \<Rightarrow> 'g row list \<Rightarrow> box option" where
  "total_bounds ops rs =
     (let bs = List.map_filter (\<lambda>r. bounds ops (geometry r)) rs in
      if bs = [] then None
      else Some (Min (set (map (\<lambda>(x0, y0, x1, y1). x0) bs)),
                 Min (set (map (\<lambda>(x0, y0, x1, y1). y0) bs)),
                 Max (set (map (\<lambda>(x0, y0, x1, y1). x1) bs)),
                 Max (set (map (\<lambda>(x0, y0, x1, y1). y1) bs))))"

definition chunks_per_side :: "nat \<Rightarrow> nat" where
  "chunks_per_side num_chunks = nat \<lceil>sqrt (real num_chunks)\<rceil>"

definition chunk_box :: "box \<Rightarrow> nat \<Rightarrow> nat \<Rightarrow> nat \<Rightarrow> box" where
  "chunk_box tb s i j =
     (case tb of (minx, miny, maxx, maxy) \<Rightarrow>
        let chunk_width = (maxx - minx) / real s;
            chunk_height = (maxy - miny) / real s;
            chunk_minx = minx + real i * chunk_width;
            chunk_miny = miny + real j * chunk_height;
            chunk_maxx = chunk_minx + chunk_width;
            chunk_maxy = chunk_miny + chunk_height
        in (chunk_minx, chunk_miny, chunk_maxx, chunk_maxy))"

text \<open>
  \<^verbatim>\<open>gdf[gdf.intersects(chunk_box)].copy()\<close>. With NaN bounds the box has NaN corners and
  no row intersects it.
\<close>

definition select_chunk :: "'g geo_ops \<Rightarrow> 'g gdf \<Rightarrow> box option \<Rightarrow> 'g gdf" where
  "select_chunk ops gdf cell =
     gdf\<lparr>rows := filter (\<lambda>r. case cell of None \<Rightarrow> False
                                | Some b \<Rightarrow> intersects ops (geometry r) b) (rows gdf)\<rparr>"

definition create_spatial_chunks :: "'g geo_ops \<Rightarrow> 'g gdf \<Rightarrow> nat \<Rightarrow> 'g gdf list" where
  "create_spatial_chunks ops gdf num_chunks =
     (let tb = total_bounds ops (rows gdf);
          s = chunks_per_side num_chunks
      in fold (\<lambda>i chunks.
           fold (\<lambda>j chunks.
             let chunk_gdf = select_chunk ops gdf (map_option (\<lambda>b. chunk_box b s i j) tb)
             in if length (rows chunk_gdf) > 0 then chunks @ [chunk_gdf] else chunks)
             [0..<s] chunks)
           [0..<s] [])"

subsection \<open>\<^verbatim>\<open>write_duckdb_compatible_geoparquet\<close>\<close>

definition geo_metadata_written :: geo_metadata where
  "geo_metadata_written =
     \<lparr>primary_column = ''geometry'',
      geometry_columns = [''geometry''],
      encoding = ''WKB'',
      geometry_type = ''GeometryCollection'',
      crs_name = ''EPSG:4326'',
      version = ''1.0.0-beta.1''\<rparr>"

definition safe_to_wkb :: "'g geo_ops \<Rightarrow> 'g \<Rightarrow> 'g encoded option" where
  "safe_to_wkb ops geom = (if \<not> is_valid ops geom then None else Some (WKB geom))"

text \<open>
  The rows as written: invalid geometries are repaired, every geometry is converted by
  \<^verbatim>\<open>safe_to_wkb\<close>, and the rows whose conversion gave \<^verbatim>\<open>None\<close> are removed.
\<close>

definition converted_rows :: "'g geo_ops \<Rightarrow> 'g row list \<Rightarrow> 'g encoded row list" where
  "converted_rows ops rs =
     List.map_filter
       (\<lambda>r. case safe_to_wkb ops (repair ops (geometry r)) of
               None \<Rightarrow> None
             | Some w \<Rightarrow> Some (with_geometry r w)) rs"

definition write_duckdb_compatible_geoparquet ::
  "'g geo_ops \<Rightarrow> 'g files \<Rightarrow> 'g gdf \<Rightarrow> string \<Rightarrow> error + 'g files" where
  "write_duckdb_compatible_geoparquet ops fs gdf output_path =
     (case check_crs (crs gdf) of
        Inl e \<Rightarrow> Inl e
      | Inr _ \<Rightarrow>
          Inr (fs(output_path \<mapsto>
                 Parquet \<lparr>pq_columns = columns gdf,
                          pq_rows = converted_rows ops (rows gdf),
                          pq_geo = geo_metadata_written\<rparr>)))"

subsection \<open>\<^verbatim>\<open>merge_grid\<close>\<close>

record cat_stats =
  original_features :: nat
  merged_features :: nat

record data_item =
  input_path :: "string option"
  num_chunks :: "nat option"

text \<open>
  The returned dictionary, without the wall-clock and memory measurements and without
  the two rounded ratios computed from \<open>eff_original_features\<close> and
  \<open>eff_merged_features\<close>.
\<close>

record merge_output =
  output_path :: string
  merged_features_count :: nat
  merge_stats :: "int \<rightharpoonup> cat_stats"
  eff_original_features :: nat
  eff_merged_features :: nat
  processing_num_chunks :: nat

record 'g merge_state =
  all_merged_dfs :: "'g gdf list"
  stats :: "int \<rightharpoonup> cat_stats"

definition stats_of :: "(int \<rightharpoonup> cat_stats) \<Rightarrow> int \<Rightarrow> cat_stats" where
  "stats_of m code =
     (case m code of Some st \<Rightarrow> st
                   | None \<Rightarrow> \<lparr>original_features = 0, merged_features = 0\<rparr>)"

fun process_chunks ::
  "'g geo_ops \<Rightarrow> 'g gdf list \<Rightarrow> int \<Rightarrow> 'g gdf list \<Rightarrow> error + 'g gdf list" where
  "process_chunks ops [] code chunk_results = Inr chunk_results"
| "process_chunks ops (chunk # chunks) code chunk_results =
     (case process_chunk ops chunk code of
        Inl e \<Rightarrow> Inl e
      | Inr result \<Rightarrow>
          process_chunks ops chunks code
            (case result of
               None \<Rightarrow> chunk_results
             | Some r \<Rightarrow> if length (rows r) > 0 then chunk_results @ [r] else chunk_results))"

text \<open>\<^verbatim>\<open>pd.concat([df] + dfs, ignore_index=True)\<close>\<close>

definition pd_concat :: "'g gdf \<Rightarrow> 'g gdf list \<Rightarrow> 'g gdf" where
  "pd_concat df dfs =
     \<lparr>crs = crs df,
      columns = first_seen [] (concat (map columns (df # dfs))),
      rows = concat (map rows (df # dfs))\<rparr>"

text \<open>
  The second pass over the concatenated chunk results of one gridcode
  (\<^verbatim>\<open>merged_df\<close>, numbered by \<^verbatim>\<open>temp_id\<close>). The \<^verbatim>\<open>try\<close> block computes the components and
  dissolves them, summing \<^verbatim>\<open>merged_count\<close>; when the contiguity computation raises, the
  \<^verbatim>\<open>except\<close> branch keeps \<^verbatim>\<open>merged_df\<close> as it is.
\<close>

definition final_merge :: "'g geo_ops \<Rightarrow> 'g gdf \<Rightarrow> 'g gdf" where
  "final_merge ops concatenated =
     (let merged_df = concatenated\<lparr>columns := first_seen [] (columns concatenated @ [''temp_id'']),
                                   rows := set_temp_id (rows concatenated)\<rparr>
      in if queen_raises ops (map geometry (rows merged_df)) then merged_df
         else \<lparr>crs = crs merged_df,
               columns = [''component_id'', ''geometry'', ''gridcode'', ''merged_count''],
               rows = merge_components ops sum_agg (rows merged_df)\<rparr>)"

text \<open>
  Both branches end the same way: the frame is appended to \<^verbatim>\<open>all_merged_dfs\<close> and its
  length becomes \<^verbatim>\<open>merge_stats[code]['merged_features']\<close>.
\<close>

definition store_result :: "int \<Rightarrow> 'g gdf \<Rightarrow> 'g merge_state \<Rightarrow> 'g merge_state" where
  "store_result code final_merged st =
     \<lparr>all_merged_dfs = all_merged_dfs st @ [final_merged],
      stats = (stats st)(code \<mapsto>
        (stats_of (stats st) code)\<lparr>merged_features := length (rows final_merged)\<rparr>)\<rparr>"

definition process_code ::
  "'g geo_ops \<Rightarrow> 'g gdf list \<Rightarrow> int \<Rightarrow> 'g merge_state \<Rightarrow> error + 'g merge_state" where
  "process_code ops chunks code st =
     (if original_features (stats_of (stats st) code) = 0 then Inr st
      else
        (case process_chunks ops chunks code [] of
           Inl e \<Rightarrow> Inl e
         | Inr [] \<Rightarrow> Inr st
         | Inr (df # dfs) \<Rightarrow>
             Inr (store_result code (final_merge ops (pd_concat df dfs)) st)))"

fun process_codes ::
  "'g geo_ops \<Rightarrow> 'g gdf list \<Rightarrow> int list \<Rightarrow> 'g merge_state \<Rightarrow> error + 'g merge_state" where
  "process_codes ops chunks [] st = Inr st"
| "process_codes ops chunks (code # codes) st =
     (case process_code ops chunks code st of
        Inl e \<Rightarrow> Inl e
      | Inr st' \<Rightarrow> process_codes ops chunks codes st')"

definition count_code :: "'g gdf \<Rightarrow> int \<Rightarrow> nat" where
  "count_code gdf code = length (filter (\<lambda>r. gridcode r = code) (rows gdf))"

definition empty_gdf :: "crs option \<Rightarrow> 'g gdf" where
  "empty_gdf c =
     \<lparr>crs = c, columns = [''gridcode'', ''merged_count'', ''component_id'', ''geometry''],
      rows = []\<rparr>"

text \<open>The statistics as initialised: the original counts of the gridcodes 12 and 60.\<close>

definition initial_state :: "'g gdf \<Rightarrow> 'g merge_state" where
  "initial_state gdf =
     \<lparr>all_merged_dfs = [],
      stats = [12 \<mapsto> \<lparr>original_features = count_code gdf 12, merged_features = 0\<rparr>,
               60 \<mapsto> \<lparr>original_features = count_code gdf 60, merged_features = 0\<rparr>]\<rparr>"

text \<open>
  The frame handed to the writer: the concatenation of \<^verbatim>\<open>all_merged_dfs\<close>, or the empty
  frame \<^verbatim>\<open>empty_gdf\<close> when the list is empty.
\<close>

definition combined_gdf :: "'g gdf \<Rightarrow> 'g merge_state \<Rightarrow> 'g gdf" where
  "combined_gdf gdf st =
     (case all_merged_dfs st of
        [] \<Rightarrow> empty_gdf (crs gdf)
      | df # dfs \<Rightarrow> pd_concat df dfs)"

definition returned :: "string \<Rightarrow> 'g gdf \<Rightarrow> 'g gdf list \<Rightarrow> 'g merge_state \<Rightarrow> merge_output" where
  "returned tmp gdf chunks st =
     (let total_original_features = count_code gdf 12 + count_code gdf 60;
          total_merged_features = merged_features (stats_of (stats st) 12)
                                  + merged_features (stats_of (stats st) 60)
      in \<lparr>output_path = tmp,
          merged_features_count = total_merged_features,
          merge_stats = stats st,
          eff_original_features = total_original_features,
          eff_merged_features = total_merged_features,
          processing_num_chunks = length chunks\<rparr>)"

text \<open>
  The body of \<^verbatim>\<open>merge_grid\<close> after the CRS test. \<open>tmp\<close> is the path
  \<^verbatim>\<open>tempfile.mkstemp(suffix='.parquet')\<close> returns; the call creates an empty file there,
  after both gridcodes are processed. The result is the files after the run together with
  the error raised or the dictionary returned.
\<close>

definition merge_chunks ::
  "'g geo_ops \<Rightarrow> 'g files \<Rightarrow> string \<Rightarrow> 'g gdf \<Rightarrow> nat \<Rightarrow> 'g files \<times> (error + merge_output)" where
  "merge_chunks ops fs tmp gdf n =
     (let chunks = create_spatial_chunks ops gdf n in
      case process_codes ops chunks [12, 60] (initial_state gdf) of
        Inl e \<Rightarrow> (fs, Inl e)
      | Inr st \<Rightarrow>
          (case write_duckdb_compatible_geoparquet ops (fs(tmp \<mapsto> Blank))
                  (combined_gdf gdf st) tmp of
             Inl e \<Rightarrow> (fs(tmp \<mapsto> Blank), Inl e)
           | Inr fs' \<Rightarrow> (fs', Inr (returned tmp gdf chunks st))))"

text \<open>\<^verbatim>\<open>gdf.set_crs(epsg=4326, inplace=True)\<close> on a frame without CRS.\<close>

definition assign_crs :: "'g gdf \<Rightarrow> 'g gdf" where
  "assign_crs gdf = (case crs gdf of None \<Rightarrow> gdf\<lparr>crs := Some (EPSG 4326)\<rparr> | Some _ \<Rightarrow> gdf)"

definition merge_grid ::
  "'g geo_ops \<Rightarrow> 'g files \<Rightarrow> string \<Rightarrow> data_item \<Rightarrow> 'g files \<times> (error + merge_output)" where
  "merge_grid ops fs tmp item =
     (case input_path item of
        None \<Rightarrow> (fs, Inl NoInputPath)
      | Some path \<Rightarrow>
          if path = [] then (fs, Inl NoInputPath)
          else
            (case read_parquet ops fs path of
               Inl e \<Rightarrow> (fs, Inl e)
             | Inr gdf \<Rightarrow>
                 (case check_crs (crs gdf) of
                    Inl e \<Rightarrow> (fs, Inl e)
                  | Inr _ \<Rightarrow>
                      merge_chunks ops fs tmp (assign_crs gdf)
                        (case num_chunks item of None \<Rightarrow> 4 | Some k \<Rightarrow> k))))"

subsection \<open>A small geometry for examples\<close>

text \<open>
  Examples are run with geometries that are lists of axis-parallel rectangles
  \<open>(minx, miny, maxx, maxy)\<close>. Two of them are contiguous when two of their rectangles
  share a point; the union of several is the list of all their rectangles.
\<close>

definition rect_meets :: "box \<Rightarrow> box \<Rightarrow> bool" where
  "rect_meets a b =
     (case a of (ax0, ay0, ax1, ay1) \<Rightarrow> case b of (bx0, by0, bx1, by1) \<Rightarrow>
        ax0 \<le> bx1 \<and> bx0 \<le> ax1 \<and> ay0 \<le> by1 \<and> by0 \<le> ay1)"

definition rect_ok :: "box \<Rightarrow> bool" where
  "rect_ok a = (case a of (x0, y0, x1, y1) \<Rightarrow> x0 \<le> x1 \<and> y0 \<le> y1)"

definition rect_bounds :: "box list \<Rightarrow> box option" where
  "rect_bounds g =
     (if g = [] then None
      else Some (Min (set (map (\<lambda>(x0, y0, x1, y1). x0) g)),
                 Min (set (map (\<lambda>(x0, y0, x1, y1). y0) g)),
                 Max (set (map (\<lambda>(x0, y0, x1, y1). x1) g)),
                 Max (set (map (\<lambda>(x0, y0, x1, y1). y1) g))))"

definition rect_crs :: "string \<Rightarrow> crs option" where
  "rect_crs s =
     (if s = ''EPSG:4326'' then Some (EPSG 4326)
      else if s = ''EPSG:25832'' then Some (EPSG 25832)
      else if s = [] then None
      else Some Other_CRS)"

definition rect_ops :: "box list geo_ops" where
  "rect_ops =
     \<lparr>bounds = rect_bounds,
      intersects = (\<lambda>g b. list_ex (\<lambda>r. rect_meets r b) g),
      is_valid = list_all rect_ok,
      make_valid = filter rect_ok,
      unary_union = concat,
      queen = (\<lambda>g h. list_ex (\<lambda>r. list_ex (rect_meets r) h) g),
      queen_raises = (\<lambda>gs. False),
      read_crs = rect_crs\<rparr>"

text \<open>The same geometry with a contiguity computation that fails on multi-part geometries.\<close>

definition fragile_ops :: "box list geo_ops" where
  "fragile_ops = rect_ops\<lparr>queen_raises := list_ex (\<lambda>g. length g > 1)\<rparr>"

definition feature :: "int \<Rightarrow> 'g \<Rightarrow> 'g encoded row" where
  "feature code g =
     \<lparr>gridcode = code, geometry = WKB g, merged_count = None, component_id = None,
      temp_id = None, absorbed = []\<rparr>"

definition input_file :: "string \<Rightarrow> 'g encoded row list \<Rightarrow> 'g stored" where
  "input_file c rs =
     Parquet \<lparr>pq_columns = [''gridcode'', ''geometry''], pq_rows = rs,
              pq_geo = geo_metadata_written\<lparr>crs_name := c\<rparr>\<rparr>"

text \<open>
  A file with one unit square of gridcode 12, and the frames and the file the run with the
  default four chunks goes through.
\<close>

definition one_square :: "box list stored" where
  "one_square = input_file ''EPSG:4326'' [feature 12 [(0, 0, 1, 1)]]"

definition one_square_gdf :: "box list gdf" where
  "one_square_gdf =
     \<lparr>crs = Some (EPSG 4326), columns = [''gridcode'', ''geometry''],
      rows = [\<lparr>gridcode = 12, geometry = [(0, 0, 1, 1)], merged_count = None,
               component_id = None, temp_id = None, absorbed = [0]\<rparr>]\<rparr>"

definition one_square_part :: "box list gdf" where
  "one_square_part =
     \<lparr>crs = Some (EPSG 4326),
      columns = [''component_id'', ''geometry'', ''gridcode'', ''merged_count''],
      rows = [\<lparr>gridcode = 12, geometry = [(0, 0, 1, 1)], merged_count = Some 1,
               component_id = Some 0, temp_id = None, absorbed = [0]\<rparr>]\<rparr>"

definition one_square_merged :: "box list gdf" where
  "one_square_merged =
     \<lparr>crs = Some (EPSG 4326),
      columns = [''component_id'', ''geometry'', ''gridcode'', ''merged_count''],
      rows = [\<lparr>gridcode = 12,
               geometry = [(0, 0, 1, 1), (0, 0, 1, 1), (0, 0, 1, 1), (0, 0, 1, 1)],
               merged_count = Some 4, component_id = Some 0, temp_id = None,
               absorbed = [0, 0, 0, 0]\<rparr>]\<rparr>"

definition default_item :: data_item where
  "default_item = \<lparr>input_path = Some ''in'', num_chunks = None\<rparr>"

definition one_square_state :: "box list merge_state" where
  "one_square_state =
     \<lparr>all_merged_dfs = [one_square_merged],
      stats = [12 \<mapsto> \<lparr>original_features = 1, merged_features = 1\<rparr>,
               60 \<mapsto> \<lparr>original_features = 0, merged_features = 0\<rparr>]\<rparr>"

definition one_square_written :: "box list parquet" where
  "one_square_written =
     \<lparr>pq_columns = [''component_id'', ''geometry'', ''gridcode'', ''merged_count''],
      pq_rows = [\<lparr>gridcode = 12,
                  geometry = WKB [(0, 0, 1, 1), (0, 0, 1, 1), (0, 0, 1, 1), (0, 0, 1, 1)],
                  merged_count = Some 4, component_id = Some 0, temp_id = None,
                  absorbed = [0, 0, 0, 0]\<rparr>],
      pq_geo = geo_metadata_written\<rparr>"

text \<open>
  Further input files: the same square tagged EPSG:25832 and without CRS, a file without
  rows, and a file whose only feature has gridcode 7.
\<close>

definition utm_square :: "box list stored" where
  "utm_square = input_file ''EPSG:25832'' [feature 12 [(0, 0, 1, 1)]]"

definition untagged_square :: "box list stored" where
  "untagged_square = input_file [] [feature 12 [(0, 0, 1, 1)]]"

definition no_rows :: "box list stored" where
  "no_rows = input_file ''EPSG:4326'' []"

definition no_rows_gdf :: "box list gdf" where
  "no_rows_gdf = \<lparr>crs = Some (EPSG 4326), columns = [''gridcode'', ''geometry''], rows = []\<rparr>"

definition other_code :: "box list stored" where
  "other_code = input_file ''EPSG:4326'' [feature 7 [(0, 0, 1, 1)]]"

definition other_code_gdf :: "box list gdf" where
  "other_code_gdf =
     \<lparr>crs = Some (EPSG 4326), columns = [''gridcode'', ''geometry''],
      rows = [\<lparr>gridcode = 7, geometry = [(0, 0, 1, 1)], merged_count = None,
               component_id = None, temp_id = None, absorbed = [0]\<rparr>]\<rparr>"


text \<open>
  Two unit squares of one gridcode that meet in the corner point (1, 1) only, run as one
  chunk, with the frames, the files and the dictionary of the run: with \<open>rect_ops\<close>, and
  with \<open>fragile_ops\<close>, where the second pass raises and the unstitched frame is written.
\<close>

definition corner_squares :: "int \<Rightarrow> box list stored" where
  "corner_squares c = input_file ''EPSG:4326'' [feature c [(0, 0, 1, 1)], feature c [(1, 1, 2, 2)]]"

definition corner_gdf :: "int \<Rightarrow> box list gdf" where
  "corner_gdf c =
     \<lparr>crs = Some (EPSG 4326), columns = [''gridcode'', ''geometry''],
      rows = [\<lparr>gridcode = c, geometry = [(0, 0, 1, 1)], merged_count = None,
               component_id = None, temp_id = None, absorbed = [0]\<rparr>,
              \<lparr>gridcode = c, geometry = [(1, 1, 2, 2)], merged_count = None,
               component_id = None, temp_id = None, absorbed = [1]\<rparr>]\<rparr>"

definition corner_part :: "box list gdf" where
  "corner_part =
     \<lparr>crs = Some (EPSG 4326),
      columns = [''component_id'', ''geometry'', ''gridcode'', ''merged_count''],
      rows = [\<lparr>gridcode = 12, geometry = [(0, 0, 1, 1), (1, 1, 2, 2)], merged_count = Some 2,
               component_id = Some 0, temp_id = None, absorbed = [0, 1]\<rparr>]\<rparr>"

definition corner_unstitched :: "box list gdf" where
  "corner_unstitched =
     \<lparr>crs = Some (EPSG 4326),
      columns = [''component_id'', ''geometry'', ''gridcode'', ''merged_count'', ''temp_id''],
      rows = [\<lparr>gridcode = 12, geometry = [(0, 0, 1, 1), (1, 1, 2, 2)], merged_count = Some 2,
               component_id = Some 0, temp_id = Some 0, absorbed = [0, 1]\<rparr>]\<rparr>"

definition one_chunk_item :: data_item where
  "one_chunk_item = \<lparr>input_path = Some ''in'', num_chunks = Some 1\<rparr>"

definition corner_stats :: "int \<rightharpoonup> cat_stats" where
  "corner_stats = [12 \<mapsto> \<lparr>original_features = 2, merged_features = 1\<rparr>,
                   60 \<mapsto> \<lparr>original_features = 0, merged_features = 0\<rparr>]"

definition corner_written :: "box list parquet" where
  "corner_written =
     \<lparr>pq_columns = [''component_id'', ''geometry'', ''gridcode'', ''merged_count''],
      pq_rows = [\<lparr>gridcode = 12, geometry = WKB [(0, 0, 1, 1), (1, 1, 2, 2)],
                  merged_count = Some 2, component_id = Some 0, temp_id = None,
                  absorbed = [0, 1]\<rparr>],
      pq_geo = geo_metadata_written\<rparr>"

definition corner_written_unstitched :: "box list parquet" where
  "corner_written_unstitched =
     \<lparr>pq_columns = [''component_id'', ''geometry'', ''gridcode'', ''merged_count'', ''temp_id''],
      pq_rows = [\<lparr>gridcode = 12, geometry = WKB [(0, 0, 1, 1), (1, 1, 2, 2)],
                  merged_count = Some 2, component_id = Some 0, temp_id = Some 0,
                  absorbed = [0, 1]\<rparr>],
      pq_geo = geo_metadata_written\<rparr>"

definition corner_output :: merge_output where
  "corner_output =
     \<lparr>output_path = ''out'', merged_features_count = 1, merge_stats = corner_stats,
      eff_original_features = 2, eff_merged_features = 1, processing_num_chunks = 1\<rparr>"

subsection \<open>The invariant of the loop over the gridcodes\<close>

text \<open>
  Every frame collected so far carries EPSG:4326, has rows, and holds only rows of the
  gridcodes 12 and 60; the statistics have exactly the keys 12 and 60.
\<close>

definition state_ok :: "'g merge_state \<Rightarrow> bool" where
  "state_ok st =
     ((\<forall>df \<in> set (all_merged_dfs st). crs df = Some (EPSG 4326) \<and> rows df \<noteq> [] \<and>
         (\<forall>m \<in> set (rows df). gridcode m = 12 \<or> gridcode m = 60))
      \<and> dom (stats st) = {12, 60})"

subsection \<open>Notions of the specification\<close>

text \<open>The sum of \<^verbatim>\<open>merged_count\<close> over the rows of one gridcode.\<close>

definition merged_count_sum :: "'g row list \<Rightarrow> int \<Rightarrow> nat" where
  "merged_count_sum rs code = sum_agg (filter (\<lambda>r. gridcode r = code) rs)"



section \<open>Properties\<close>

subsection \<open>Frames, components and dissolve\<close>


lemma length_join: "length (join e ls) = length ls"
  by (simp add: join_def)

lemma length_fold_join: "length (fold join es ls) = length ls"
  by (induction es arbitrary: ls) (simp_all add: length_join)

lemma length_raw_labels: "length (raw_labels n es) = n"
  by (simp add: raw_labels_def length_fold_join)

lemma length_component_labels: "length (component_labels ops gs) = length gs"
  by (simp add: component_labels_def Let_def length_raw_labels)

lemma length_set_temp_id: "length (set_temp_id rs) = length rs"
  by (simp add: set_temp_id_def)

lemma set_rows_of: "set (rows_of ls rs c) \<subseteq> set rs"
  unfolding rows_of_def by (auto dest: set_zip_rightD)

lemma rows_of_nonempty:
  assumes "c \<in> set ls" "length ls = length rs"
  shows "rows_of ls rs c \<noteq> []"
proof -
  from assms(1) obtain i where i: "i < length ls" "ls ! i = c"
    by (auto simp: in_set_conv_nth)
  with assms(2) have "(c, rs ! i) \<in> set (zip ls rs)"
    by (auto simp: set_zip)
  then show ?thesis
    unfolding rows_of_def by (auto simp: filter_empty_conv)
qed

lemma dissolve_group_simps:
  "gridcode (dissolve_group ops agg c grp) = gridcode (hd grp)"
  "geometry (dissolve_group ops agg c grp) = unary_union ops (map geometry grp)"
  "merged_count (dissolve_group ops agg c grp) = Some (agg grp)"
  "component_id (dissolve_group ops agg c grp) = Some c"
  "temp_id (dissolve_group ops agg c grp) = None"
  "absorbed (dissolve_group ops agg c grp) = concat (map absorbed grp)"
  by (simp_all add: dissolve_group_def)

lemma dissolve_rowD:
  assumes "m \<in> set (dissolve ops agg ls rs)"
  obtains c where "c \<in> set ls" and "m = dissolve_group ops agg c (rows_of ls rs c)"
  using assms unfolding dissolve_def by auto

lemma dissolve_gridcode:
  assumes "length ls = length rs" "\<forall>r \<in> set rs. gridcode r = c" "m \<in> set (dissolve ops agg ls rs)"
  shows "gridcode m = c"
proof -
  from assms(3) obtain l where l: "l \<in> set ls" "m = dissolve_group ops agg l (rows_of ls rs l)"
    by (rule dissolve_rowD)
  have "rows_of ls rs l \<noteq> []" using l(1) assms(1) by (rule rows_of_nonempty)
  then have "hd (rows_of ls rs l) \<in> set (rows_of ls rs l)" by (rule hd_in_set)
  then have "hd (rows_of ls rs l) \<in> set rs" using set_rows_of[of ls rs l] by (rule set_mp[rotated])
  then have "gridcode (hd (rows_of ls rs l)) = c" using assms(2) by simp
  then show ?thesis by (simp add: l(2) dissolve_group_simps)
qed


lemma gridcode_set_temp_id: "r \<in> set (set_temp_id rs) \<Longrightarrow> \<exists>r' \<in> set rs. gridcode r = gridcode r'"
  unfolding set_temp_id_def by (auto simp: in_set_enumerate_eq)


lemma gridcode_prepare_chunk:
  assumes "r \<in> set (prepare_chunk ops ch code)"
  shows "gridcode r = code"
proof -
  from assms obtain r' where
    "r' \<in> set (map (\<lambda>r. r\<lparr>geometry := repair ops (geometry r)\<rparr>)
                  (filter (\<lambda>r. gridcode r = code) (rows ch)))" "gridcode r = gridcode r'"
    unfolding prepare_chunk_def by (blast dest: gridcode_set_temp_id)
  then show ?thesis by auto
qed

lemma merge_components_gridcode:
  assumes "\<forall>r \<in> set rs. gridcode r = c" "m \<in> set (merge_components ops agg rs)"
  shows "gridcode m = c"
  using assms dissolve_gridcode[of "component_labels ops (map geometry rs)" rs c m ops agg]
  by (simp add: merge_components_def length_component_labels)

lemma process_chunk_SomeD:
  assumes "process_chunk ops ch code = Inr (Some df)"
  shows "df = \<lparr>crs = Some (EPSG 4326),
               columns = [''component_id'', ''geometry'', ''gridcode'', ''merged_count''],
               rows = map (\<lambda>r. r\<lparr>geometry := make_valid ops (geometry r)\<rparr>)
                        (merge_components ops count_agg (prepare_chunk ops ch code))\<rparr>"
    and "filter (\<lambda>r. gridcode r = code) (rows ch) \<noteq> []"
    and "\<not> queen_raises ops (map geometry (prepare_chunk ops ch code))"
  using assms
  by (simp_all add: process_chunk_def split: if_splits sum.splits)


lemma process_chunk_rows:
  assumes "process_chunk ops ch code = Inr (Some df)"
  shows "rows df = map (\<lambda>r. r\<lparr>geometry := make_valid ops (geometry r)\<rparr>)
                        (merge_components ops count_agg (prepare_chunk ops ch code))"
    and "crs df = Some (EPSG 4326)"
  by (simp_all add: process_chunk_SomeD(1)[OF assms])

lemma process_chunk_gridcode:
  assumes "process_chunk ops ch code = Inr (Some df)" "m \<in> set (rows df)"
  shows "gridcode m = code"
proof -
  from assms(2) obtain m' where
    m': "m' \<in> set (merge_components ops count_agg (prepare_chunk ops ch code))"
      "m = m'\<lparr>geometry := make_valid ops (geometry m')\<rparr>"
    unfolding process_chunk_rows(1)[OF assms(1)] by auto
  have "\<forall>r \<in> set (prepare_chunk ops ch code). gridcode r = code"
    by (simp add: gridcode_prepare_chunk)
  from merge_components_gridcode[OF this m'(1)] m'(2) show ?thesis by simp
qed

lemma process_chunks_all:
  assumes "process_chunks ops chunks code acc = Inr res"
    and "\<forall>df \<in> set acc. P df"
    and "\<And>ch df. ch \<in> set chunks \<Longrightarrow> process_chunk ops ch code = Inr (Some df) \<Longrightarrow> P df"
  shows "\<forall>df \<in> set res. P df"
  using assms
proof (induction chunks arbitrary: acc)
  case Nil
  then show ?case by simp
next
  case (Cons ch chunks)
  from Cons.prems(1) obtain result where
    r: "process_chunk ops ch code = Inr result"
    and rest: "process_chunks ops chunks code
       (case result of None \<Rightarrow> acc
        | Some r \<Rightarrow> if length (rows r) > 0 then acc @ [r] else acc) = Inr res"
    by (auto split: sum.splits)
  have step: "\<forall>df \<in> set (case result of None \<Rightarrow> acc
        | Some r \<Rightarrow> if length (rows r) > 0 then acc @ [r] else acc). P df"
  proof (cases result)
    case None
    then show ?thesis using Cons.prems(2) by simp
  next
    case (Some d)
    with r have "P d" using Cons.prems(3)[of ch d] by simp
    with Some show ?thesis using Cons.prems(2) by simp
  qed
  show ?case
  proof (rule Cons.IH[OF rest step])
    fix c d assume "c \<in> set chunks" "process_chunk ops c code = Inr (Some d)"
    then show "P d" using Cons.prems(3)[of c d] by simp
  qed
qed


lemma check_crs_4326: "check_crs (Some (EPSG 4326)) = Inr ()"
  by (simp add: check_crs_def)

lemma process_chunks_frames:
  assumes "process_chunks ops chunks code [] = Inr res"
  shows "\<forall>df \<in> set res. crs df = Some (EPSG 4326) \<and> (\<forall>m \<in> set (rows df). gridcode m = code)"
  by (rule process_chunks_all[OF assms]) (simp_all add: process_chunk_rows(2) process_chunk_gridcode)

lemma process_chunks_nonempty_rows:
  assumes "process_chunks ops chunks code acc = Inr res" "\<forall>df \<in> set acc. rows df \<noteq> []"
  shows "\<forall>df \<in> set res. rows df \<noteq> []"
  using assms
proof (induction chunks arbitrary: acc)
  case Nil
  then show ?case by simp
next
  case (Cons ch chunks)
  from Cons.prems(1) obtain result where
    rest: "process_chunks ops chunks code
       (case result of None \<Rightarrow> acc
        | Some r \<Rightarrow> if length (rows r) > 0 then acc @ [r] else acc) = Inr res"
    by (auto split: sum.splits)
  have "\<forall>df \<in> set (case result of None \<Rightarrow> acc
        | Some r \<Rightarrow> if length (rows r) > 0 then acc @ [r] else acc). rows df \<noteq> []"
    using Cons.prems(2) by (cases result) simp_all
  from Cons.IH[OF rest this] show ?case .
qed

lemma gridcode_set_temp_id_all:
  "\<forall>r \<in> set rs. gridcode r = c \<Longrightarrow> \<forall>r \<in> set (set_temp_id rs). gridcode r = c"
  by (metis gridcode_set_temp_id)

lemma set_temp_id_eq_Nil: "(set_temp_id rs = []) = (rs = [])"
  using length_set_temp_id[of rs] by (metis length_0_conv)

lemma length_dissolve: "length (dissolve ops agg ls rs) = card (set ls)"
  by (simp add: dissolve_def length_remdups_card_conv)

lemma merge_components_eq_Nil: "(merge_components ops agg rs = []) = (rs = [])"
proof -
  have "length (merge_components ops agg rs) = card (set (component_labels ops (map geometry rs)))"
    by (simp add: merge_components_def length_dissolve)
  moreover have "(card (set (component_labels ops (map geometry rs))) = 0) = (rs = [])"
    using length_component_labels[of ops "map geometry rs"]
    by (metis card_eq_0_iff List.finite_set set_empty length_0_conv length_map)
  ultimately show ?thesis by (metis length_0_conv)
qed


lemma final_merge_cases:
  "(queen_raises ops (map geometry (set_temp_id (rows cat))) \<and>
      final_merge ops cat = cat\<lparr>columns := first_seen [] (columns cat @ [''temp_id'']),
                                 rows := set_temp_id (rows cat)\<rparr>)
   \<or> (\<not> queen_raises ops (map geometry (set_temp_id (rows cat))) \<and>
      final_merge ops cat = \<lparr>crs = crs cat,
               columns = [''component_id'', ''geometry'', ''gridcode'', ''merged_count''],
               rows = merge_components ops sum_agg (set_temp_id (rows cat))\<rparr>)"
  by (simp add: final_merge_def Let_def)

lemma crs_final_merge: "crs (final_merge ops cat) = crs cat"
  using final_merge_cases[of ops cat] by auto

lemma gridcode_final_merge:
  assumes "\<forall>r \<in> set (rows cat). gridcode r = c" "m \<in> set (rows (final_merge ops cat))"
  shows "gridcode m = c"
proof -
  have t: "\<forall>r \<in> set (set_temp_id (rows cat)). gridcode r = c"
    using assms(1) by (rule gridcode_set_temp_id_all)
  from final_merge_cases[of ops cat] show ?thesis
  proof (elim disjE conjE)
    assume "final_merge ops cat = cat\<lparr>columns := first_seen [] (columns cat @ [''temp_id'']),
                                 rows := set_temp_id (rows cat)\<rparr>"
    with assms(2) t show ?thesis by simp
  next
    assume "final_merge ops cat = \<lparr>crs = crs cat,
               columns = [''component_id'', ''geometry'', ''gridcode'', ''merged_count''],
               rows = merge_components ops sum_agg (set_temp_id (rows cat))\<rparr>"
    with assms(2) have "m \<in> set (merge_components ops sum_agg (set_temp_id (rows cat)))" by simp
    from merge_components_gridcode[OF t this] show ?thesis .
  qed
qed

lemma rows_final_merge_eq_Nil: "(rows (final_merge ops cat) = []) = (rows cat = [])"
  using final_merge_cases[of ops cat]
  by (auto simp: merge_components_eq_Nil set_temp_id_eq_Nil)


lemma pd_concat_simps:
  "crs (pd_concat df dfs) = crs df"
  "rows (pd_concat df dfs) = rows df @ concat (map rows dfs)"
  by (simp_all add: pd_concat_def)

lemma process_code_cases:
  assumes "process_code ops chunks code st = Inr st'"
  shows "st' = st \<or>
    (\<exists>fm. st' = store_result code fm st \<and> crs fm = Some (EPSG 4326) \<and> rows fm \<noteq> [] \<and>
          (\<forall>m \<in> set (rows fm). gridcode m = code))"
proof (cases "original_features (stats_of (stats st) code) = 0")
  case True
  with assms show ?thesis by (simp add: process_code_def)
next
  case False
  show ?thesis
  proof (cases "process_chunks ops chunks code []")
    case (Inl e)
    with assms False show ?thesis by (simp add: process_code_def)
  next
    case (Inr res)
    note res = this
  show ?thesis
  proof (cases res)
    case Nil
    with assms False res show ?thesis by (simp add: process_code_def)
  next
    case (Cons df dfs)
    let ?cat = "pd_concat df dfs"
    from assms False res Cons have eq: "st' = store_result code (final_merge ops ?cat) st"
      by (simp add: process_code_def)
    have fr: "\<forall>d \<in> set res. crs d = Some (EPSG 4326) \<and> (\<forall>m \<in> set (rows d). gridcode m = code)"
      by (rule process_chunks_frames[OF res])
    have ne: "\<forall>d \<in> set res. rows d \<noteq> []"
      by (rule process_chunks_nonempty_rows[OF res]) simp
    have "crs ?cat = Some (EPSG 4326)" using fr Cons by (simp add: pd_concat_simps)
    then have c1: "crs (final_merge ops ?cat) = Some (EPSG 4326)" by (simp add: crs_final_merge)
    have "rows ?cat \<noteq> []" using ne Cons by (simp add: pd_concat_simps)
    then have c2: "rows (final_merge ops ?cat) \<noteq> []" by (simp add: rows_final_merge_eq_Nil)
    have "\<forall>r \<in> set (rows ?cat). gridcode r = code"
      using fr Cons by (auto simp: pd_concat_simps)
    then have c3: "\<forall>m \<in> set (rows (final_merge ops ?cat)). gridcode m = code"
      using gridcode_final_merge by blast
    from eq c1 c2 c3 show ?thesis by blast
  qed
  qed
qed

lemma state_ok_initial: "state_ok (initial_state gdf)"
  by (auto simp: state_ok_def initial_state_def)

lemma state_ok_store_result:
  assumes "state_ok st" "code = 12 \<or> code = 60" "crs fm = Some (EPSG 4326)" "rows fm \<noteq> []"
    "\<forall>m \<in> set (rows fm). gridcode m = code"
  shows "state_ok (store_result code fm st)"
  using assms unfolding state_ok_def store_result_def by auto

lemma state_ok_process_code:
  assumes "process_code ops chunks code st = Inr st'" "state_ok st" "code = 12 \<or> code = 60"
  shows "state_ok st'"
  using process_code_cases[OF assms(1)] assms(2,3) state_ok_store_result by blast

lemma state_ok_process_codes:
  assumes "process_codes ops chunks [12, 60] st = Inr st'" "state_ok st"
  shows "state_ok st'"
proof -
  from assms(1) obtain st1 where a: "process_code ops chunks 12 st = Inr st1"
    and b: "process_code ops chunks 60 st1 = Inr st'"
    by (auto split: sum.splits)
  from state_ok_process_code[OF a assms(2)] have "state_ok st1" by simp
  from state_ok_process_code[OF b this] show ?thesis by simp
qed




lemma write_ok:
  assumes "check_crs (crs gdf) = Inr ()"
  shows "write_duckdb_compatible_geoparquet ops fs gdf p =
     Inr (fs(p \<mapsto> Parquet \<lparr>pq_columns = columns gdf,
                              pq_rows = converted_rows ops (rows gdf),
                              pq_geo = geo_metadata_written\<rparr>))"
  using assms by (simp add: write_duckdb_compatible_geoparquet_def)

lemma combined_gdf_ok:
  assumes "state_ok st" "check_crs (crs gdf) = Inr ()"
  shows "check_crs (crs (combined_gdf gdf st)) = Inr ()"
    and "\<forall>m \<in> set (rows (combined_gdf gdf st)). gridcode m = 12 \<or> gridcode m = 60"
proof -
  show "check_crs (crs (combined_gdf gdf st)) = Inr ()"
  proof (cases "all_merged_dfs st")
    case Nil
    then show ?thesis using assms(2) by (simp add: combined_gdf_def empty_gdf_def)
  next
    case (Cons df dfs)
    with assms(1) have "crs df = Some (EPSG 4326)" by (simp add: state_ok_def)
    with Cons show ?thesis by (simp add: combined_gdf_def pd_concat_simps check_crs_4326)
  qed
  show "\<forall>m \<in> set (rows (combined_gdf gdf st)). gridcode m = 12 \<or> gridcode m = 60"
  proof (cases "all_merged_dfs st")
    case Nil
    then show ?thesis by (simp add: combined_gdf_def empty_gdf_def)
  next
    case (Cons df dfs)
    have "rows (combined_gdf gdf st) = concat (map rows (all_merged_dfs st))"
      using Cons by (simp add: combined_gdf_def pd_concat_simps)
    then show ?thesis using assms(1) unfolding state_ok_def by auto
  qed
qed


lemma merge_chunks_cases:
  assumes "check_crs (crs gdf) = Inr ()"
  shows "(\<exists>e. process_codes ops (create_spatial_chunks ops gdf n) [12, 60] (initial_state gdf) = Inl e
             \<and> merge_chunks ops fs tmp gdf n = (fs, Inl e))
       \<or> (\<exists>st. process_codes ops (create_spatial_chunks ops gdf n) [12, 60] (initial_state gdf) = Inr st
             \<and> state_ok st
             \<and> merge_chunks ops fs tmp gdf n =
                 (fs(tmp \<mapsto> Parquet \<lparr>pq_columns = columns (combined_gdf gdf st),
                                      pq_rows = converted_rows ops (rows (combined_gdf gdf st)),
                                      pq_geo = geo_metadata_written\<rparr>),
                  Inr (returned tmp gdf (create_spatial_chunks ops gdf n) st)))"
proof (cases "process_codes ops (create_spatial_chunks ops gdf n) [12, 60] (initial_state gdf)")
  case (Inl e)
  then show ?thesis by (simp add: merge_chunks_def)
next
  case (Inr st)
  have ok: "state_ok st" using state_ok_process_codes[OF Inr state_ok_initial] .
  have "check_crs (crs (combined_gdf gdf st)) = Inr ()" using combined_gdf_ok(1)[OF ok assms] .
  from write_ok[OF this] Inr ok show ?thesis by (simp add: merge_chunks_def)
qed

subsection \<open>The run as a whole\<close>


lemma merge_grid_eq:
  assumes "input_path item = Some path" "path \<noteq> []" "read_parquet ops fs path = Inr gdf"
    "check_crs (crs gdf) = Inr ()"
  shows "merge_grid ops fs tmp item =
     merge_chunks ops fs tmp (assign_crs gdf) (case num_chunks item of None \<Rightarrow> 4 | Some k \<Rightarrow> k)"
  using assms by (simp add: merge_grid_def)




lemma original_features_store_result:
  "original_features (stats_of (stats (store_result code fm st)) c) =
   original_features (stats_of (stats st) c)"
  by (simp add: store_result_def stats_of_def)




lemma initial_state_original:
  "original_features (stats_of (stats (initial_state gdf)) 12) = count_code gdf 12"
  "original_features (stats_of (stats (initial_state gdf)) 60) = count_code gdf 60"
  by (simp_all add: initial_state_def stats_of_def)




subsection \<open>The partitioner\<close>








subsection \<open>What a merged row absorbs\<close>

































lemma merge_chunks_Inr:
  assumes "check_crs (crs gdf) = Inr ()"
    and "process_codes ops (create_spatial_chunks ops gdf n) [12, 60] (initial_state gdf) = Inr st"
  shows "merge_chunks ops fs tmp gdf n =
           (fs(tmp \<mapsto> Parquet \<lparr>pq_columns = columns (combined_gdf gdf st),
                                pq_rows = converted_rows ops (rows (combined_gdf gdf st)),
                                pq_geo = geo_metadata_written\<rparr>),
            Inr (returned tmp gdf (create_spatial_chunks ops gdf n) st))"
  using merge_chunks_cases[OF assms(1), of ops n fs tmp] assms(2) by auto


subsection \<open>Runs of the examples\<close>


lemma chunks_per_side_square: "chunks_per_side (s * s) = s"
  by (simp add: chunks_per_side_def real_sqrt_mult_self)

lemma chunks_per_side_4: "chunks_per_side 4 = Suc (Suc 0)"
  using chunks_per_side_square[of 2] by simp

lemma chunks_per_side_1: "chunks_per_side (Suc 0) = Suc 0"
  using chunks_per_side_square[of 1] by simp

lemma rect_ops_simps:
  "bounds rect_ops = rect_bounds"
  "intersects rect_ops = (\<lambda>g b. list_ex (\<lambda>r. rect_meets r b) g)"
  "is_valid rect_ops = list_all rect_ok"
  "make_valid rect_ops = filter rect_ok"
  "unary_union rect_ops = concat"
  "queen rect_ops = (\<lambda>g h. list_ex (\<lambda>r. list_ex (rect_meets r) h) g)"
  "queen_raises rect_ops = (\<lambda>gs. False)"
  "read_crs rect_ops = rect_crs"
  by (simp_all add: rect_ops_def)

lemmas eval_defs =
  process_chunk_def check_crs_def prepare_chunk_def set_temp_id_def repair_def rect_ops_simps
  rect_ok_def rect_meets_def merge_components_def component_labels_def neighbors_def
  raw_labels_def join_def dissolve_def rows_of_def dissolve_group_def count_agg_def sum_agg_def
  Let_def

lemma read_one_square:
  "read_parquet rect_ops [''in'' \<mapsto> one_square] ''in'' = Inr one_square_gdf"
  by (simp add: read_parquet_def one_square_def input_file_def feature_def with_geometry_def
      decode_def rect_ops_simps rect_crs_def geo_metadata_written_def one_square_gdf_def)

lemma bounds_one_square: "total_bounds rect_ops (rows one_square_gdf) = Some (0, 0, 1, 1)"
  by (simp add: one_square_gdf_def total_bounds_def rect_ops_simps rect_bounds_def
      List.map_filter_def)

lemma select_one_square:
  "select_chunk rect_ops one_square_gdf (Some (chunk_box (0, 0, 1, 1) (Suc (Suc 0)) i j)) =
     (if i \<le> 2 \<and> j \<le> 2 then one_square_gdf else one_square_gdf\<lparr>rows := []\<rparr>)"
  by (simp add: select_chunk_def chunk_box_def one_square_gdf_def rect_ops_simps rect_meets_def
      Let_def field_simps)

lemma chunks_one_square:
  "create_spatial_chunks rect_ops one_square_gdf 4 =
     [one_square_gdf, one_square_gdf, one_square_gdf, one_square_gdf]"
  by (simp add: create_spatial_chunks_def chunks_per_side_4 bounds_one_square select_one_square
      Let_def) (simp add: one_square_gdf_def)

lemma process_one_square_12:
  "process_chunk rect_ops one_square_gdf 12 = Inr (Some one_square_part)"
  by (simp add: one_square_gdf_def one_square_part_def eval_defs)

lemma process_one_square_60:
  "process_chunk rect_ops one_square_gdf 60 = Inr None"
  by (simp add: one_square_gdf_def process_chunk_def)

lemma final_merge_one_square:
  "final_merge rect_ops (pd_concat one_square_part [one_square_part, one_square_part, one_square_part])
     = one_square_merged"
  by (simp add: final_merge_def pd_concat_def one_square_part_def one_square_merged_def eval_defs)


lemma codes_one_square:
  "process_codes rect_ops (create_spatial_chunks rect_ops one_square_gdf 4) [12, 60]
     (initial_state one_square_gdf) = Inr one_square_state"
proof -
  have c: "count_code one_square_gdf 12 = 1" "count_code one_square_gdf 60 = 0"
    by (simp_all add: count_code_def one_square_gdf_def)
  have m: "length (rows one_square_merged) = 1" "length (rows one_square_part) = 1"
    by (simp_all add: one_square_merged_def one_square_part_def)
  show ?thesis
    by (simp add: chunks_one_square process_code_def initial_state_def stats_of_def c
        process_one_square_12 final_merge_one_square store_result_def m one_square_state_def
        fun_upd_twist)
qed

lemma run_one_square:
  "merge_grid rect_ops [''in'' \<mapsto> one_square] ''out'' default_item =
     ([''in'' \<mapsto> one_square, ''out'' \<mapsto> Parquet one_square_written],
      Inr \<lparr>output_path = ''out'', merged_features_count = 1,
           merge_stats = [12 \<mapsto> \<lparr>original_features = 1, merged_features = 1\<rparr>,
                          60 \<mapsto> \<lparr>original_features = 0, merged_features = 0\<rparr>],
           eff_original_features = 1, eff_merged_features = 1,
           processing_num_chunks = 4\<rparr>)"
proof -
  have a: "assign_crs one_square_gdf = one_square_gdf"
    by (simp add: assign_crs_def one_square_gdf_def)
  have k: "check_crs (crs one_square_gdf) = Inr ()"
    by (simp add: one_square_gdf_def check_crs_def)
  have c: "count_code one_square_gdf 12 = 1" "count_code one_square_gdf 60 = 0"
    by (simp_all add: count_code_def one_square_gdf_def)
  have w: "converted_rows rect_ops (rows one_square_merged) = pq_rows one_square_written"
    by (simp add: converted_rows_def List.map_filter_def one_square_merged_def
        one_square_written_def safe_to_wkb_def repair_def rect_ops_simps rect_ok_def
        with_geometry_def)
  have g: "combined_gdf one_square_gdf one_square_state = one_square_merged"
    by (simp add: combined_gdf_def one_square_state_def pd_concat_def one_square_merged_def)
  have "merge_grid rect_ops [''in'' \<mapsto> one_square] ''out'' default_item =
      merge_chunks rect_ops [''in'' \<mapsto> one_square] ''out'' one_square_gdf 4"
    using merge_grid_eq[of default_item "''in''" rect_ops "[''in'' \<mapsto> one_square]" one_square_gdf "''out''"]
    by (simp add: default_item_def read_one_square k a)
  also have "\<dots> = ([''in'' \<mapsto> one_square, ''out'' \<mapsto> Parquet
          \<lparr>pq_columns = columns one_square_merged, pq_rows = pq_rows one_square_written,
           pq_geo = geo_metadata_written\<rparr>],
        Inr (returned ''out'' one_square_gdf
               [one_square_gdf, one_square_gdf, one_square_gdf, one_square_gdf] one_square_state))"
    using merge_chunks_Inr[OF k codes_one_square, of "[''in'' \<mapsto> one_square]" "''out''"]
    by (simp add: g w chunks_one_square)
  finally show ?thesis
    by (simp add: returned_def c stats_of_def one_square_state_def one_square_written_def
        one_square_merged_def)
qed

lemma read_examples:
  "read_parquet rect_ops [''in'' \<mapsto> utm_square] ''in'' = Inr (one_square_gdf\<lparr>crs := Some (EPSG 25832)\<rparr>)"
  "read_parquet rect_ops [''in'' \<mapsto> untagged_square] ''in'' = Inr (one_square_gdf\<lparr>crs := None\<rparr>)"
  "read_parquet rect_ops [''in'' \<mapsto> no_rows] ''in'' = Inr no_rows_gdf"
  "read_parquet rect_ops [''in'' \<mapsto> other_code] ''in'' = Inr other_code_gdf"
  by (simp_all add: read_parquet_def utm_square_def untagged_square_def no_rows_def
      other_code_def input_file_def feature_def with_geometry_def decode_def rect_ops_simps
      rect_crs_def geo_metadata_written_def one_square_gdf_def no_rows_gdf_def
      other_code_gdf_def)

lemma default_item_simps:
  "input_path default_item = Some ''in''"
  "num_chunks default_item = None"
  by (simp_all add: default_item_def)

lemma fragile_ops_simps:
  "bounds fragile_ops = rect_bounds"
  "intersects fragile_ops = (\<lambda>g b. list_ex (\<lambda>r. rect_meets r b) g)"
  "is_valid fragile_ops = list_all rect_ok"
  "make_valid fragile_ops = filter rect_ok"
  "unary_union fragile_ops = concat"
  "queen fragile_ops = (\<lambda>g h. list_ex (\<lambda>r. list_ex (rect_meets r) h) g)"
  "queen_raises fragile_ops = list_ex (\<lambda>g. length g > 1)"
  "read_crs fragile_ops = rect_crs"
  by (simp_all add: fragile_ops_def rect_ops_def)

lemma read_corner:
  "read_parquet rect_ops [''in'' \<mapsto> corner_squares c] ''in'' = Inr (corner_gdf c)"
  "read_parquet fragile_ops [''in'' \<mapsto> corner_squares c] ''in'' = Inr (corner_gdf c)"
  by (simp_all add: read_parquet_def corner_squares_def input_file_def feature_def
      with_geometry_def decode_def rect_ops_simps fragile_ops_simps rect_crs_def
      geo_metadata_written_def corner_gdf_def)

lemma bounds_corner:
  "total_bounds rect_ops (rows (corner_gdf c)) = Some (0, 0, 2, 2)"
  "total_bounds fragile_ops (rows (corner_gdf c)) = Some (0, 0, 2, 2)"
  by (simp_all add: corner_gdf_def total_bounds_def rect_ops_simps fragile_ops_simps
      rect_bounds_def List.map_filter_def)

lemma chunks_corner:
  "create_spatial_chunks rect_ops (corner_gdf c) (Suc 0) = [corner_gdf c]"
  "create_spatial_chunks fragile_ops (corner_gdf c) (Suc 0) = [corner_gdf c]"
  by (simp_all add: create_spatial_chunks_def chunks_per_side_1 bounds_corner Let_def)
     (simp_all add: select_chunk_def chunk_box_def rect_ops_simps fragile_ops_simps rect_meets_def
        corner_gdf_def)

lemma process_corner_12:
  "process_chunk rect_ops (corner_gdf 12) 12 = Inr (Some corner_part)"
  "process_chunk fragile_ops (corner_gdf 12) 12 = Inr (Some corner_part)"
  by (simp_all add: corner_gdf_def corner_part_def eval_defs fragile_ops_simps)

lemma final_merge_corner:
  "final_merge rect_ops (pd_concat corner_part []) = corner_part"
  "final_merge fragile_ops (pd_concat corner_part []) = corner_unstitched"
  by (simp_all add: final_merge_def pd_concat_def corner_part_def corner_unstitched_def eval_defs
      fragile_ops_simps)

lemma count_corner:
  "count_code (corner_gdf 12) 12 = 2" "count_code (corner_gdf 12) 60 = 0"
  "count_code (corner_gdf 7) 12 = 0" "count_code (corner_gdf 7) 60 = 0"
  by (simp_all add: count_code_def corner_gdf_def)

lemma codes_corner:
  "process_codes rect_ops (create_spatial_chunks rect_ops (corner_gdf 12) (Suc 0)) [12, 60]
     (initial_state (corner_gdf 12)) = Inr \<lparr>all_merged_dfs = [corner_part], stats = corner_stats\<rparr>"
  "process_codes fragile_ops (create_spatial_chunks fragile_ops (corner_gdf 12) (Suc 0)) [12, 60]
     (initial_state (corner_gdf 12)) =
       Inr \<lparr>all_merged_dfs = [corner_unstitched], stats = corner_stats\<rparr>"
proof -
  have m: "length (rows corner_part) = 1" "length (rows corner_unstitched) = 1"
    by (simp_all add: corner_part_def corner_unstitched_def)
  show "process_codes rect_ops (create_spatial_chunks rect_ops (corner_gdf 12) (Suc 0)) [12, 60]
     (initial_state (corner_gdf 12)) = Inr \<lparr>all_merged_dfs = [corner_part], stats = corner_stats\<rparr>"
    by (simp add: chunks_corner process_code_def initial_state_def stats_of_def count_corner
        process_corner_12 final_merge_corner store_result_def m corner_stats_def fun_upd_twist)
  show "process_codes fragile_ops (create_spatial_chunks fragile_ops (corner_gdf 12) (Suc 0)) [12, 60]
     (initial_state (corner_gdf 12)) =
       Inr \<lparr>all_merged_dfs = [corner_unstitched], stats = corner_stats\<rparr>"
    by (simp add: chunks_corner process_code_def initial_state_def stats_of_def count_corner
        process_corner_12 final_merge_corner store_result_def m corner_stats_def fun_upd_twist)
qed

lemma run_corner:
  "merge_grid rect_ops [''in'' \<mapsto> corner_squares 12] ''out'' one_chunk_item =
     ([''in'' \<mapsto> corner_squares 12, ''out'' \<mapsto> Parquet corner_written], Inr corner_output)"
  "merge_grid fragile_ops [''in'' \<mapsto> corner_squares 12] ''out'' one_chunk_item =
     ([''in'' \<mapsto> corner_squares 12, ''out'' \<mapsto> Parquet corner_written_unstitched],
      Inr corner_output)"
proof -
  let ?fs = "[''in'' \<mapsto> corner_squares 12]"
  have p: "input_path one_chunk_item = Some ''in''" "''in'' \<noteq> []"
    by (simp_all add: one_chunk_item_def)
  have a: "assign_crs (corner_gdf 12) = corner_gdf 12"
    by (simp add: assign_crs_def corner_gdf_def)
  have k: "check_crs (crs (corner_gdf 12)) = Inr ()"
    by (simp add: corner_gdf_def check_crs_def)
  have w: "converted_rows rect_ops (rows corner_part) = pq_rows corner_written"
    "converted_rows fragile_ops (rows corner_unstitched) = pq_rows corner_written_unstitched"
    by (simp_all add: converted_rows_def List.map_filter_def corner_part_def corner_written_def
        corner_unstitched_def corner_written_unstitched_def safe_to_wkb_def repair_def
        rect_ops_simps fragile_ops_simps rect_ok_def with_geometry_def)
  have g: "combined_gdf (corner_gdf 12) \<lparr>all_merged_dfs = [corner_part], stats = corner_stats\<rparr>
             = corner_part"
    "combined_gdf (corner_gdf 12) \<lparr>all_merged_dfs = [corner_unstitched], stats = corner_stats\<rparr>
             = corner_unstitched"
    by (simp_all add: combined_gdf_def pd_concat_def corner_part_def corner_unstitched_def)
  have r: "returned ''out'' (corner_gdf 12) [corner_gdf 12] \<lparr>all_merged_dfs = dfs, stats = corner_stats\<rparr>
             = corner_output" for dfs :: "box list gdf list"
    by (simp add: returned_def count_corner stats_of_def corner_stats_def corner_output_def)
  have "merge_grid rect_ops ?fs ''out'' one_chunk_item =
      merge_chunks rect_ops ?fs ''out'' (corner_gdf 12) (Suc 0)"
    using merge_grid_eq[OF p read_corner(1) k, of "''out''"] by (simp add: one_chunk_item_def a)
  then show "merge_grid rect_ops ?fs ''out'' one_chunk_item =
     ([''in'' \<mapsto> corner_squares 12, ''out'' \<mapsto> Parquet corner_written], Inr corner_output)"
    using merge_chunks_Inr[OF k codes_corner(1), of ?fs "''out''"]
    by (simp add: g w r chunks_corner) (simp add: corner_written_def corner_part_def)
  have "merge_grid fragile_ops ?fs ''out'' one_chunk_item =
      merge_chunks fragile_ops ?fs ''out'' (corner_gdf 12) (Suc 0)"
    using merge_grid_eq[OF p read_corner(2) k, of "''out''"] by (simp add: one_chunk_item_def a)
  then show "merge_grid fragile_ops ?fs ''out'' one_chunk_item =
     ([''in'' \<mapsto> corner_squares 12, ''out'' \<mapsto> Parquet corner_written_unstitched],
      Inr corner_output)"
    using merge_chunks_Inr[OF k codes_corner(2), of ?fs "''out''"]
    by (simp add: g w r chunks_corner)
       (simp add: corner_written_unstitched_def corner_unstitched_def)
qed

section \<open>The claims\<close>

text \<open>
  C1 (count conservation). The claim: for every processed gridcode, the \<^verbatim>\<open>merged_count\<close>
  values of the output add up to the number of input features of that gridcode, also when
  features lie in several chunks. The code counts a feature once for every chunk it
  intersects (\<^verbatim>\<open>'temp_id': 'count'\<close> in every chunk, \<^verbatim>\<open>'merged_count': 'sum'\<close> across
  chunks). For the file with one unit square of gridcode 12 and the default four chunks,
  the square lies in all four chunks: the run writes one feature with
  \<^verbatim>\<open>merged_count\<close> 4, while the statistics report one original feature.
\<close>

theorem count_of_feature_in_four_chunks:
  "\<exists>f out. merge_grid rect_ops [''in'' \<mapsto> one_square] ''out'' default_item =
             ([''in'' \<mapsto> one_square, ''out'' \<mapsto> Parquet f], Inr out)
     \<and> original_features (stats_of (merge_stats out) 12) = 1
     \<and> length (pq_rows f) = 1
     \<and> merged_count_sum (pq_rows f) 12 = 4"
proof (intro exI conjI)
  show "merge_grid rect_ops [''in'' \<mapsto> one_square] ''out'' default_item =
          ([''in'' \<mapsto> one_square, ''out'' \<mapsto> Parquet one_square_written],
           Inr \<lparr>output_path = ''out'', merged_features_count = 1,
                merge_stats = [12 \<mapsto> \<lparr>original_features = 1, merged_features = 1\<rparr>,
                               60 \<mapsto> \<lparr>original_features = 0, merged_features = 0\<rparr>],
                eff_original_features = 1, eff_merged_features = 1,
                processing_num_chunks = 4\<rparr>)"
    by (rule run_one_square)
qed (simp_all add: stats_of_def one_square_written_def merged_count_sum_def sum_agg_def)

text \<open>
  C5 (CRS invariant). When the frame read from the input file carries a CRS whose EPSG
  code is not 4326, \<^verbatim>\<open>merge_grid\<close> raises and the files are as before: no output file is
  written. When the frame carries no CRS, the run is the run of the merge on the same
  frame tagged EPSG:4326.
\<close>

theorem crs_invariant:
  assumes "input_path item = Some path" "path \<noteq> []" "read_parquet ops fs path = Inr gdf"
  shows "(\<forall>t. crs gdf = Some t \<and> to_epsg t \<noteq> Some 4326 \<longrightarrow>
            merge_grid ops fs tmp item = (fs, Inl (UnexpectedCRS (to_epsg t))))
       \<and> (crs gdf = None \<longrightarrow>
            merge_grid ops fs tmp item =
              merge_chunks ops fs tmp (gdf\<lparr>crs := Some (EPSG 4326)\<rparr>)
                (case num_chunks item of None \<Rightarrow> 4 | Some k \<Rightarrow> k))"
  using assms by (simp add: merge_grid_def check_crs_def assign_crs_def)

theorem crs_invariant_witness:
  "merge_grid rect_ops [''in'' \<mapsto> utm_square] ''out'' default_item =
     ([''in'' \<mapsto> utm_square], Inl (UnexpectedCRS (Some 25832)))
   \<and> merge_grid rect_ops [''in'' \<mapsto> untagged_square] ''out'' default_item =
       merge_chunks rect_ops [''in'' \<mapsto> untagged_square] ''out'' one_square_gdf 4"
proof -
  have p: "input_path default_item = Some ''in''" "''in'' \<noteq> []"
    by (simp_all add: default_item_simps)
  have "crs (one_square_gdf\<lparr>crs := Some (EPSG 25832)\<rparr>) = Some (EPSG 25832)
        \<and> to_epsg (EPSG 25832) \<noteq> Some 4326"
    by simp
  with crs_invariant[OF p read_examples(1), of "''out''"]
  have a: "merge_grid rect_ops [''in'' \<mapsto> utm_square] ''out'' default_item =
     ([''in'' \<mapsto> utm_square], Inl (UnexpectedCRS (Some 25832)))"
    by simp
  have "crs (one_square_gdf\<lparr>crs := None\<rparr>) = None" by simp
  with crs_invariant[OF p read_examples(2), of "''out''"]
  have b: "merge_grid rect_ops [''in'' \<mapsto> untagged_square] ''out'' default_item =
       merge_chunks rect_ops [''in'' \<mapsto> untagged_square] ''out'' one_square_gdf 4"
    by (simp add: default_item_simps one_square_gdf_def)
  from a b show ?thesis by simp
qed







text \<open>
  C4 (stitch failure). The claim: when the second pass for a gridcode raises, the run goes on
  with the unstitched chunk results, and the returned statistics flag the degraded outcome.
  The first half holds (theorem below). The second does not: the returned dictionary has
  no such entry, and the run of the two corner squares returns the same dictionary whether
  the second pass raises (\<open>fragile_ops\<close>) or not (\<open>rect_ops\<close>).
\<close>

theorem degraded_run_returns_same_statistics:
  "queen_raises fragile_ops (map geometry (set_temp_id (rows corner_part)))
   \<and> \<not> queen_raises rect_ops (map geometry (set_temp_id (rows corner_part)))
   \<and> snd (merge_grid fragile_ops [''in'' \<mapsto> corner_squares 12] ''out'' one_chunk_item) =
       snd (merge_grid rect_ops [''in'' \<mapsto> corner_squares 12] ''out'' one_chunk_item)"
  by (simp add: run_corner fragile_ops_simps rect_ops_simps corner_part_def set_temp_id_def)

text \<open>
  C4, amended: when the contiguity computation of the second pass raises, \<^verbatim>\<open>process_code\<close>
  returns normally; the frame it collects is the concatenation of the chunk results,
  numbered by \<^verbatim>\<open>temp_id\<close>, and \<^verbatim>\<open>merged_features\<close> of the gridcode is the number of its rows.
  The statistics carry nothing else about the second pass.
\<close>

theorem stitch_failure_fallback:
  assumes "original_features (stats_of (stats st) code) \<noteq> 0"
    and "process_chunks ops chunks code [] = Inr (df # dfs)"
    and "queen_raises ops (map geometry (set_temp_id (rows df @ concat (map rows dfs))))"
  shows "process_code ops chunks code st =
           Inr (store_result code (final_merge ops (pd_concat df dfs)) st)
     \<and> rows (final_merge ops (pd_concat df dfs)) = set_temp_id (rows df @ concat (map rows dfs))
     \<and> all_merged_dfs (store_result code (final_merge ops (pd_concat df dfs)) st) =
         all_merged_dfs st @ [final_merge ops (pd_concat df dfs)]
     \<and> merged_features
          (stats_of (stats (store_result code (final_merge ops (pd_concat df dfs)) st)) code) =
         length (rows df @ concat (map rows dfs))
     \<and> original_features
          (stats_of (stats (store_result code (final_merge ops (pd_concat df dfs)) st)) code) =
         original_features (stats_of (stats st) code)"
proof -
  let ?cat = "pd_concat df dfs"
  have r: "rows ?cat = rows df @ concat (map rows dfs)" by (simp add: pd_concat_simps)
  with assms(3) final_merge_cases[of ops ?cat]
  have f: "rows (final_merge ops ?cat) = set_temp_id (rows df @ concat (map rows dfs))"
    by auto
  have p: "process_code ops chunks code st = Inr (store_result code (final_merge ops ?cat) st)"
    using assms(1,2) by (simp add: process_code_def)
  have a: "all_merged_dfs (store_result code (final_merge ops ?cat) st) =
      all_merged_dfs st @ [final_merge ops ?cat]"
    by (simp add: store_result_def)
  have m: "merged_features (stats_of (stats (store_result code (final_merge ops ?cat) st)) code) =
         length (rows df @ concat (map rows dfs))"
    by (simp add: store_result_def stats_of_def f length_set_temp_id)
  from p f a m original_features_store_result[of code "final_merge ops ?cat" st code]
  show ?thesis by simp
qed

theorem stitch_failure_fallback_witness:
  "process_code fragile_ops [corner_gdf 12] 12 (initial_state (corner_gdf 12)) =
     Inr (store_result 12 corner_unstitched (initial_state (corner_gdf 12)))
   \<and> all_merged_dfs (store_result 12 corner_unstitched (initial_state (corner_gdf 12))) =
       [corner_unstitched]
   \<and> merged_features
        (stats_of (stats (store_result 12 corner_unstitched (initial_state (corner_gdf 12)))) 12) = 1
   \<and> original_features
        (stats_of (stats (store_result 12 corner_unstitched (initial_state (corner_gdf 12)))) 12) = 2"
proof -
  have a: "original_features (stats_of (stats (initial_state (corner_gdf 12))) 12) \<noteq> 0"
    by (simp add: initial_state_original count_corner)
  have b: "process_chunks fragile_ops [corner_gdf 12] 12 [] = Inr [corner_part]"
    by (simp add: process_corner_12) (simp add: corner_part_def)
  have c: "queen_raises fragile_ops
             (map geometry (set_temp_id (rows corner_part @ concat (map rows []))))"
    by (simp add: fragile_ops_simps corner_part_def set_temp_id_def)
  have l: "length (rows corner_part @ concat (map rows [])) = 1"
    by (simp add: corner_part_def)
  have e: "all_merged_dfs (initial_state (corner_gdf 12)) = []"
    by (simp add: initial_state_def)
  from stitch_failure_fallback[OF a b c]
  show ?thesis
    unfolding final_merge_corner(2) l e initial_state_original count_corner by simp
qed




end
